theory Spec2Isabelle
  imports Main "HOL-Library.Sublist"
begin

section \<open>JavaScript values and string primitives used by the pages\<close>

text \<open>
  A string is the list of the bytes of its UTF-8 encoding. \<open>includes_str\<close> is
  \<open>String.prototype.includes\<close>: a search for a contiguous occurrence of the query at some
  position of the text (on well-formed strings the occurrences among the bytes are the
  occurrences among the UTF-16 code units, UTF-8 being self-synchronising).
  \<open>String.prototype.toLowerCase\<close> is the browser's Unicode case mapping, which folds every
  cased letter and may change the length of a string; the functions that call it take it as
  their first argument \<open>toLowerCase\<close>, so that what is proved of them holds for the browser's
  mapping.
\<close>

fun startsWith :: "string \<Rightarrow> string \<Rightarrow> bool" where
  "startsWith t [] = True"
| "startsWith [] (c # cs) = False"
| "startsWith (x # xs) (c # cs) = (x = c \<and> startsWith xs cs)"

fun includes_str :: "string \<Rightarrow> string \<Rightarrow> bool" where
  "includes_str [] q = (q = [])"
| "includes_str (x # xs) q = (startsWith (x # xs) q \<or> includes_str xs q)"

text \<open>
  A field that holds a number in the backend's JSON may also be \<open>null\<close> or missing
  (\<open>undefined\<close>). The durations are whole seconds, and \<open>Num n\<close> stands for the number \<open>n\<close>
  when \<open>n\<close> is a safe integer, of absolute value below \<open>2^53\<close>: there the double arithmetic of
  \<open>Math.floor(x / d)\<close> and \<open>x % d\<close> is exact and a number prints as its decimal digits.
  Beyond that range a double quotient is rounded and the definitions below do not describe
  it; every property of them is stated for safe integers. The result of an arithmetic
  operation is an \<open>int option\<close>, \<open>None\<close> standing for \<open>NaN\<close>.
\<close>

definition safe_integer :: "int \<Rightarrow> bool" where
  "safe_integer n \<longleftrightarrow> - 9007199254740992 < n \<and> n < 9007199254740992"

datatype jsval = Undefined | Null | Num int

fun truthy :: "jsval \<Rightarrow> bool" where
  "truthy Undefined = False"
| "truthy Null = False"
| "truthy (Num n) = (n \<noteq> 0)"

fun ToNumber :: "jsval \<Rightarrow> int option" where
  "ToNumber Undefined = None"
| "ToNumber Null = Some 0"
| "ToNumber (Num n) = Some n"

text \<open>\<open>Math.floor(x / d)\<close> for a safe integer \<open>x\<close> and a positive integer constant \<open>d\<close>.\<close>

definition floor_div :: "int option \<Rightarrow> int \<Rightarrow> int option" where
  "floor_div x d = map_option (\<lambda>n. n div d) x"

text \<open>\<open>x % d\<close> for a safe integer \<open>x\<close>: the remainder takes the sign of the dividend.\<close>

definition js_rem :: "int option \<Rightarrow> int \<Rightarrow> int option" where
  "js_rem x d = map_option (\<lambda>n. if 0 \<le> n then n mod d else - ((- n) mod d)) x"

text \<open>\<open>x > 0\<close>: every comparison with \<open>NaN\<close> is false.\<close>

definition gt_zero :: "int option \<Rightarrow> bool" where
  "gt_zero x = (case x of None \<Rightarrow> False | Some n \<Rightarrow> 0 < n)"

definition digit :: "nat \<Rightarrow> char" where
  "digit d = char_of (48 + d)"

fun natToString :: "nat \<Rightarrow> string" where
  "natToString n = (if n < 10 then [digit n] else natToString (n div 10) @ [digit (n mod 10)])"

declare natToString.simps [simp del]

definition intToString :: "int \<Rightarrow> string" where
  "intToString i = (if i < 0 then CHR ''-'' # natToString (nat (- i)) else natToString (nat i))"

text \<open>The string a template literal \<open>`${x}`\<close> inserts for a number and for a field value.\<close>

definition numToString :: "int option \<Rightarrow> string" where
  "numToString x = (case x of None \<Rightarrow> ''NaN'' | Some n \<Rightarrow> intToString n)"

fun valToString :: "jsval \<Rightarrow> string" where
  "valToString Undefined = ''undefined''"
| "valToString Null = ''null''"
| "valToString (Num n) = intToString n"

section \<open>Duration formatting\<close>

text \<open>
  The body shared by both pages, from \<open>const hours = ...\<close> to the last \<open>return\<close>.
\<close>

definition formatDuration_body :: "jsval \<Rightarrow> string" where
  "formatDuration_body seconds =
     (let hours = floor_div (ToNumber seconds) 3600;
          minutes = floor_div (js_rem (ToNumber seconds) 3600) 60
      in if gt_zero hours then numToString hours @ ''h '' @ numToString minutes @ ''m''
         else if gt_zero minutes then numToString minutes @ ''m''
         else valToString seconds @ ''s'')"

text \<open>Dashboard: no guard in front of the body.\<close>

definition formatDuration_Dashboard :: "jsval \<Rightarrow> string" where
  "formatDuration_Dashboard seconds = formatDuration_body seconds"

text \<open>ActivityLogs: \<open>if (!seconds) return null;\<close> first. \<open>None\<close> is the returned \<open>null\<close>.\<close>

definition formatDuration_ActivityLogs :: "jsval \<Rightarrow> string option" where
  "formatDuration_ActivityLogs seconds =
     (if \<not> truthy seconds then None else Some (formatDuration_body seconds))"

text \<open>\<open>e || d\<close> for an expression that is a string or \<open>null\<close>: the empty string is falsy too.\<close>

definition or_default :: "string option \<Rightarrow> string \<Rightarrow> string" where
  "or_default e d = (case e of None \<Rightarrow> d | Some s \<Rightarrow> if s = [] then d else s)"

section \<open>Records received from the backend\<close>

text \<open>
  The records are the response bodies of the REST API. A field that the pages read behind a
  guard (\<open>?.\<close>, \<open>&&\<close>, \<open>||\<close>) may be absent and is an \<open>option\<close> or a \<open>jsval\<close>; a field that
  the pages dereference without a guard is always a string.
\<close>

record document =
  doc_id :: string
  filename :: string
  description :: "string option"
  category :: "string option"
  file_size :: int
  uploaded_at :: string
  owner_name :: string

record permission =
  perm_id :: string
  document_id :: string
  requester_name :: string
  permission_type :: string
  status :: string
  requested_at :: string
  expires_at :: "string option"
  grant_reason :: "string option"

record activity_log =
  log_id :: string
  action :: string
  user_name :: string
  document_name :: string
  timestamp :: string
  duration_seconds :: jsval

record weekly_summary =
  documents_accessed :: int
  documents_uploaded :: int
  permissions_granted :: int
  total_active_seconds :: jsval

datatype toast = ToastError string | ToastSuccess string

section \<open>My Documents: \<open>filterDocuments\<close>\<close>


section \<open>Activity Logs: \<open>filterLogs\<close> and the duration cells\<close>


text \<open>The Duration cell of a table row: \<open>formatDuration(log.duration_seconds) || '-'\<close>.\<close>

definition durationCell :: "activity_log \<Rightarrow> string" where
  "durationCell log = or_default (formatDuration_ActivityLogs (duration_seconds log)) ''-''"

text \<open>
  The Total Duration card:
  \<open>formatDuration(logs.reduce((sum, log) => sum + (log.duration_seconds || 0), 0)) || '0m'\<close>.
  The sum is exact while it stays a safe integer.
\<close>

definition or_zero :: "jsval \<Rightarrow> int" where
  "or_zero v = (case v of Num n \<Rightarrow> n | _ \<Rightarrow> 0)"

definition totalDurationCard :: "activity_log list \<Rightarrow> string" where
  "totalDurationCard logs =
     or_default
       (formatDuration_ActivityLogs
          (Num (fold (\<lambda>log sum. sum + or_zero (duration_seconds log)) logs 0))) ''0m''"

section \<open>Dashboard: \<open>loadDashboardData\<close>\<close>

record stats =
  myDocuments :: nat
  sharedDocuments :: nat
  pendingRequests :: nat

record dashboard =
  summary :: "weekly_summary option"
  recentActivity :: "activity_log list"
  stats :: stats
  dash_isLoading :: bool

record dashboard_responses =
  summaryRes :: weekly_summary
  logsRes :: "activity_log list"
  myDocsRes :: "document list"
  sharedDocsRes :: "document list"
  incomingReqRes :: "permission list"

text \<open>The state of the component before the first load.\<close>

definition dashboard_init :: dashboard where
  "dashboard_init =
     \<lparr>summary = None, recentActivity = [],
      stats = \<lparr>myDocuments = 0, sharedDocuments = 0, pendingRequests = 0\<rparr>,
      dash_isLoading = True\<rparr>"

text \<open>
  \<open>Promise.all\<close> of the five requests either yields all five bodies (\<open>Some\<close>) or rejects
  (\<open>None\<close>); the \<open>catch\<close> branch shows a toast, and \<open>finally\<close> clears the loading flag.
\<close>

definition loadDashboardData ::
  "dashboard_responses option \<Rightarrow> dashboard \<Rightarrow> dashboard \<times> toast option" where
  "loadDashboardData res st =
     (case res of
        Some r \<Rightarrow>
          (st\<lparr>summary := Some (summaryRes r),
              recentActivity := take 10 (logsRes r),
              stats := \<lparr>myDocuments = length (myDocsRes r),
                        sharedDocuments = length (sharedDocsRes r),
                        pendingRequests =
                          length (filter (\<lambda>r. status r = ''pending'') (incomingReqRes r))\<rparr>,
              dash_isLoading := False\<rparr>, None)
      | None \<Rightarrow>
          (st\<lparr>dash_isLoading := False\<rparr>, Some (ToastError ''Failed to load dashboard data'')))"

section \<open>Access Requests\<close>

text \<open>
  \<open>Array.prototype.findIndex\<close> walks the array from index 0 and returns the first index whose
  element satisfies the callback, or \<open>-1\<close>.
\<close>

fun findIndex_from :: "('a \<Rightarrow> bool) \<Rightarrow> 'a list \<Rightarrow> nat \<Rightarrow> int" where
  "findIndex_from P [] k = - 1"
| "findIndex_from P (x # xs) k = (if P x then int k else findIndex_from P xs (Suc k))"

definition findIndex :: "('a \<Rightarrow> bool) \<Rightarrow> 'a list \<Rightarrow> int" where
  "findIndex P xs = findIndex_from P xs 0"

text \<open>
  \<open>Array.prototype.filter\<close> with the three-argument callback \<open>(element, index, self)\<close>.
\<close>

fun filter_from :: "('a \<Rightarrow> nat \<Rightarrow> 'a list \<Rightarrow> bool) \<Rightarrow> 'a list \<Rightarrow> nat \<Rightarrow> 'a list \<Rightarrow> 'a list" where
  "filter_from cb self k [] = []"
| "filter_from cb self k (x # xs) =
     (if cb x k self then x # filter_from cb self (Suc k) xs
      else filter_from cb self (Suc k) xs)"

definition filter_indexed :: "('a \<Rightarrow> nat \<Rightarrow> 'a list \<Rightarrow> bool) \<Rightarrow> 'a list \<Rightarrow> 'a list" where
  "filter_indexed cb xs = filter_from cb xs 0 xs"

definition uniqueDocs :: "document list \<Rightarrow> document list \<Rightarrow> document list" where
  "uniqueDocs myDocs sharedDocs =
     (let allDocs = myDocs @ sharedDocs
      in filter_indexed
           (\<lambda>doc index self. int index = findIndex (\<lambda>d. doc_id d = doc_id doc) self) allDocs)"

text \<open>
  \<open>loadAllDocuments\<close>: the argument is the outcome of \<open>Promise.all\<close> (\<open>None\<close> when a request
  failed, which only logs to the console); the state is \<open>allDocuments\<close>.
\<close>

definition loadAllDocuments ::
  "(document list \<times> document list) option \<Rightarrow> document list \<Rightarrow> document list" where
  "loadAllDocuments res allDocuments =
     (case res of
        Some (myDocs, sharedDocs) \<Rightarrow> uniqueDocs myDocs sharedDocs
      | None \<Rightarrow> allDocuments)"

text \<open>The number shown on the Incoming tab.\<close>

definition incomingTabCount :: "permission list \<Rightarrow> nat" where
  "incomingTabCount incomingRequests =
     length (filter (\<lambda>r. status r = ''pending'') incomingRequests)"





section \<open>Shared with Me\<close>

text \<open>
  \<open>permMap\<close> is a plain object used as a dictionary from document ids to permission records.
\<close>

definition buildPermMap :: "permission list \<Rightarrow> (string \<rightharpoonup> permission)" where
  "buildPermMap perms =
     fold (\<lambda>p permMap. permMap(document_id p \<mapsto> p))
       (filter (\<lambda>p. status p = ''approved'') perms) Map.empty"

record shared_page =
  documents :: "document list"
  permissions :: "string \<rightharpoonup> permission"
  shared_isLoading :: bool

definition shared_init :: shared_page where
  "shared_init = \<lparr>documents = [], permissions = Map.empty, shared_isLoading = True\<rparr>"

definition loadSharedDocuments ::
  "(document list \<times> permission list) option \<Rightarrow> shared_page \<Rightarrow> shared_page \<times> toast option" where
  "loadSharedDocuments res st =
     (case res of
        Some (docsRes, permsRes) \<Rightarrow>
          (st\<lparr>documents := docsRes, permissions := buildPermMap permsRes,
              shared_isLoading := False\<rparr>, None)
      | None \<Rightarrow>
          (st\<lparr>shared_isLoading := False\<rparr>, Some (ToastError ''Failed to load shared documents'')))"

text \<open>
  \<open>new Date(s)\<close> is the browser's date parser, a parameter \<open>parseDate\<close> here: the time value
  in milliseconds, or \<open>None\<close> for an invalid date. \<open>new Date()\<close> is the clock reading \<open>now\<close>.
  A comparison with an invalid date is false.
\<close>

definition date_before :: "int option \<Rightarrow> int \<Rightarrow> bool" where
  "date_before d now = (case d of None \<Rightarrow> False | Some t \<Rightarrow> t < now)"

text \<open>
  \<open>perm?.expires_at && new Date(perm.expires_at) < new Date()\<close>, read for its truthiness:
  a missing record, a missing \<open>expires_at\<close> and an empty string all stop the conjunction.
\<close>

definition isExpired :: "(string \<Rightarrow> int option) \<Rightarrow> int \<Rightarrow> permission option \<Rightarrow> bool" where
  "isExpired parseDate now perm =
     (case perm of
        None \<Rightarrow> False
      | Some p \<Rightarrow>
          (case expires_at p of
             None \<Rightarrow> False
           | Some e \<Rightarrow> e \<noteq> [] \<and> date_before (parseDate e) now))"

text \<open>
  \<open>format(date, pattern)\<close> of date-fns throws a \<open>RangeError\<close> (invalid time value) on an invalid
  date. On a valid date the text is determined by the instant, which stands for the text here.
\<close>

datatype render_error = RangeError

definition format_date :: "int option \<Rightarrow> render_error + int" where
  "format_date d = (case d of None \<Rightarrow> Inl RangeError | Some t \<Rightarrow> Inr t)"

text \<open>
  What a document card shows: the permission type with, when the record has a non-empty
  \<open>expires_at\<close>, the label \<open>Expired\<close> or \<open>Until <date>\<close>; the upload date; and the Download button
  or not.
\<close>

datatype expiry_label = Expired | Until int

record card =
  card_key :: string
  permission_details :: "(string \<times> expiry_label option) option"
  uploaded :: int
  download_button :: bool

text \<open>
  The block \<open>perm && (...)\<close>. The date of \<open>Until\<close> is formatted only when the flag is false, and
  formatting throws when \<open>expires_at\<close> is not empty and not a date.
\<close>

definition permissionDetails ::
  "(string \<Rightarrow> int option) \<Rightarrow> permission option \<Rightarrow> bool \<Rightarrow>
     render_error + (string \<times> expiry_label option) option" where
  "permissionDetails parseDate perm expired =
     (case perm of
        None \<Rightarrow> Inr None
      | Some p \<Rightarrow>
          (case expires_at p of
             None \<Rightarrow> Inr (Some (permission_type p, None))
           | Some e \<Rightarrow>
               if e = [] then Inr (Some (permission_type p, None))
               else if expired then Inr (Some (permission_type p, Some Expired))
               else (case format_date (parseDate e) of
                       Inl err \<Rightarrow> Inl err
                     | Inr t \<Rightarrow> Inr (Some (permission_type p, Some (Until t))))))"

text \<open>
  The condition in front of the button:
  \<open>perm && (perm.permission_type === 'download' || perm.permission_type === 'edit') && !isExpired\<close>.
\<close>

definition downloadCondition :: "permission option \<Rightarrow> bool \<Rightarrow> bool" where
  "downloadCondition perm expired =
     (case perm of
        None \<Rightarrow> False
      | Some p \<Rightarrow>
          (permission_type p = ''download'' \<or> permission_type p = ''edit'') \<and> \<not> expired)"

text \<open>
  The callback of \<open>documents.map\<close>, in the order of the source: the permission block, the upload
  date, the button. An exception leaves the callback at once.
\<close>

definition renderCard ::
  "(string \<Rightarrow> int option) \<Rightarrow> int \<Rightarrow> (string \<rightharpoonup> permission) \<Rightarrow> document \<Rightarrow> render_error + card" where
  "renderCard parseDate now perms doc =
     (let perm = perms (doc_id doc);
          expired = isExpired parseDate now perm
      in (case permissionDetails parseDate perm expired of
            Inl err \<Rightarrow> Inl err
          | Inr details \<Rightarrow>
              (case format_date (parseDate (uploaded_at doc)) of
                 Inl err \<Rightarrow> Inl err
               | Inr up \<Rightarrow>
                   Inr \<lparr>card_key = doc_id doc, permission_details = details, uploaded = up,
                        download_button = downloadCondition perm expired\<rparr>)))"

text \<open>\<open>documents.map\<close>: an exception in one card ends the rendering of the page.\<close>

fun renderCards ::
  "(string \<Rightarrow> int option) \<Rightarrow> int \<Rightarrow> (string \<rightharpoonup> permission) \<Rightarrow> document list \<Rightarrow>
     render_error + card list" where
  "renderCards parseDate now perms [] = Inr []"
| "renderCards parseDate now perms (doc # docs) =
     (case renderCard parseDate now perms doc of
        Inl err \<Rightarrow> Inl err
      | Inr c \<Rightarrow>
          (case renderCards parseDate now perms docs of
             Inl err \<Rightarrow> Inl err
           | Inr cs \<Rightarrow> Inr (c # cs)))"

text \<open>
  The cards of the page: none while the page is loading (the spinner) and none for an empty
  list (the empty state).
\<close>

definition renderSharedDocuments ::
  "(string \<Rightarrow> int option) \<Rightarrow> int \<Rightarrow> shared_page \<Rightarrow> render_error + card list" where
  "renderSharedDocuments parseDate now st =
     (if shared_isLoading st then Inr []
      else renderCards parseDate now (permissions st) (documents st))"

section \<open>The API client and its interceptors\<close>

datatype param = PUndefined | PStr string | PNum int

datatype body = NoBody | Json string | UrlEncoded "(string \<times> string) list" | FormData string

record config =
  url :: string
  http_method :: string
  headers :: "string \<rightharpoonup> string"
  params :: "(string \<times> param) list"
  data :: body
  responseType :: "string option"

text \<open>The browser state the client touches: \<open>localStorage\<close> and \<open>window.location.href\<close>.\<close>

record browser =
  localStorage :: "string \<rightharpoonup> string"
  href :: string

text \<open>The request a wrapper of \<open>authAPI\<close>, \<open>documentsAPI\<close>, \<open>permissionsAPI\<close> or \<open>activityAPI\<close> hands to
  the client, before the interceptor runs.\<close>

datatype api_call =
    Register string
  | Login string string
  | GetMe
  | Upload string
  | GetMy
  | GetShared
  | GetById string
  | DownloadDoc string
  | DeleteDoc string
  | RequestPermission string
  | Grant string
  | GetIncoming
  | GetOutgoing
  | GetLogs param
  | GetSummary
  | LogView param param

definition plain_request :: "string \<Rightarrow> string \<Rightarrow> body \<Rightarrow> config" where
  "plain_request m u d =
     \<lparr>url = u, http_method = m, headers = Map.empty, params = [], data = d,
      responseType = None\<rparr>"

fun request_config :: "api_call \<Rightarrow> config" where
  "request_config (Register d) = plain_request ''post'' ''/auth/register'' (Json d)"
| "request_config (Login email password) =
     (plain_request ''post'' ''/auth/login''
        (UrlEncoded [(''username'', email), (''password'', password)]))
       \<lparr>headers := [''Content-Type'' \<mapsto> ''application/x-www-form-urlencoded'']\<rparr>"
| "request_config GetMe = plain_request ''get'' ''/auth/me'' NoBody"
| "request_config (Upload formData) =
     (plain_request ''post'' ''/documents/upload'' (FormData formData))
       \<lparr>headers := [''Content-Type'' \<mapsto> ''multipart/form-data'']\<rparr>"
| "request_config GetMy = plain_request ''get'' ''/documents/my'' NoBody"
| "request_config GetShared = plain_request ''get'' ''/documents/shared'' NoBody"
| "request_config (GetById i) = plain_request ''get'' (''/documents/'' @ i) NoBody"
| "request_config (DownloadDoc i) =
     (plain_request ''get'' (''/documents/'' @ i @ ''/download'') NoBody)
       \<lparr>responseType := Some ''blob''\<rparr>"
| "request_config (DeleteDoc i) = plain_request ''delete'' (''/documents/'' @ i) NoBody"
| "request_config (RequestPermission d) = plain_request ''post'' ''/permissions/request'' (Json d)"
| "request_config (Grant d) = plain_request ''post'' ''/permissions/grant'' (Json d)"
| "request_config GetIncoming = plain_request ''get'' ''/permissions/incoming'' NoBody"
| "request_config GetOutgoing = plain_request ''get'' ''/permissions/outgoing'' NoBody"
| "request_config (GetLogs documentId) =
     (plain_request ''get'' ''/activity/logs'' NoBody)\<lparr>params := [(''document_id'', documentId)]\<rparr>"
| "request_config GetSummary = plain_request ''get'' ''/activity/summary'' NoBody"
| "request_config (LogView documentId durationSeconds) =
     (plain_request ''post'' ''/activity/log-view'' NoBody)
       \<lparr>params := [(''document_id'', documentId), (''duration_seconds'', durationSeconds)]\<rparr>"

text \<open>
  The request interceptor. \<open>if (token)\<close> is false both for a missing entry (\<open>getItem\<close> returns
  \<open>null\<close>) and for an entry holding the empty string.
\<close>

definition requestInterceptor :: "browser \<Rightarrow> config \<Rightarrow> config" where
  "requestInterceptor b cfg =
     (case localStorage b ''token'' of
        None \<Rightarrow> cfg
      | Some token \<Rightarrow>
          if token \<noteq> [] then cfg\<lparr>headers := (headers cfg)(''Authorization'' \<mapsto> ''Bearer '' @ token)\<rparr>
          else cfg)"

record response =
  resp_status :: int
  resp_data :: string

text \<open>A failure carries a response when the server answered, and none on a network error.\<close>

record axios_error =
  err_response :: "response option"
  message :: string

text \<open>
  What a response handler hands on: the response, the rejection of an error, or a request
  sent again (which is how an interceptor would retry).
\<close>

datatype outcome = Resolve response | Reject axios_error | Reissue config

definition responseFulfilled :: "response \<Rightarrow> browser \<Rightarrow> browser \<times> outcome" where
  "responseFulfilled r b = (b, Resolve r)"

definition responseRejected :: "axios_error \<Rightarrow> browser \<Rightarrow> browser \<times> outcome" where
  "responseRejected error b =
     (let b' =
        (if map_option resp_status (err_response error) = Some 401
         then b\<lparr>localStorage := (localStorage b)(''token'' := None), href := ''/''\<rparr>
         else b)
      in (b', Reject error))"

section \<open>Sample data\<close>

text \<open>
  Three timestamps as the browser parses them; every other string is an invalid date here.
\<close>

definition sample_parseDate :: "string \<Rightarrow> int option" where
  "sample_parseDate s =
     (if s = ''1970-01-01T00:00:05.000Z'' then Some 5000
      else if s = ''2024-03-01T09:00:00.000Z'' then Some 1709283600000
      else if s = ''2030-01-01T00:00:00.000Z'' then Some 1893456000000
      else None)"



definition sample_doc :: "string \<Rightarrow> string \<Rightarrow> string option \<Rightarrow> string option \<Rightarrow> document" where
  "sample_doc i f d c =
     \<lparr>doc_id = i, filename = f, description = d, category = c, file_size = 2048,
      uploaded_at = ''2024-03-01T09:00:00.000Z'', owner_name = ''Ada''\<rparr>"

definition sample_perm :: "string \<Rightarrow> string \<Rightarrow> string \<Rightarrow> string option \<Rightarrow> permission" where
  "sample_perm d t s e =
     \<lparr>perm_id = ''p-'' @ d, document_id = d, requester_name = ''Bob'', permission_type = t,
      status = s, requested_at = ''2024-03-02T09:00:00.000Z'', expires_at = e,
      grant_reason = None\<rparr>"

definition sample_log :: "string \<Rightarrow> string \<Rightarrow> string \<Rightarrow> jsval \<Rightarrow> activity_log" where
  "sample_log a u d s =
     \<lparr>log_id = ''l1'', action = a, user_name = u, document_name = d,
      timestamp = ''2024-03-03T09:00:00.000Z'', duration_seconds = s\<rparr>"

definition sample_browser :: browser where
  "sample_browser = \<lparr>localStorage = [''token'' \<mapsto> ''abc''], href = ''/dashboard''\<rparr>"

section \<open>The notions the properties are stated with\<close>




text \<open>
  A permission is expired when it has an \<open>expires_at\<close> and that instant is earlier than the
  current time.
\<close>

definition expired_at :: "(string \<Rightarrow> int option) \<Rightarrow> int \<Rightarrow> permission \<Rightarrow> bool" where
  "expired_at parseDate now p =
     (case expires_at p of
        None \<Rightarrow> False
      | Some e \<Rightarrow> (case parseDate e of None \<Rightarrow> False | Some t \<Rightarrow> t < now))"

text \<open>
  Keeping, for every key, only its first occurrence in a list; \<open>seen\<close> holds the keys that
  occurred before the list.
\<close>

fun first_occurrences :: "('a \<Rightarrow> 'k) \<Rightarrow> 'k set \<Rightarrow> 'a list \<Rightarrow> 'a list" where
  "first_occurrences key seen [] = []"
| "first_occurrences key seen (x # xs) =
     (if key x \<in> seen then first_occurrences key seen xs
      else x # first_occurrences key (insert (key x) seen) xs)"

section \<open>String search\<close>

lemma startsWith_iff: "startsWith t q \<longleftrightarrow> (\<exists>ss. t = q @ ss)"
  by (induction t q rule: startsWith.induct) auto



lemma includes_str_sublist: "includes_str t q \<longleftrightarrow> (\<exists>ps ss. t = ps @ q @ ss)"
proof (induction t)
  case Nil
  then show ?case by auto
next
  case (Cons x xs)
  show ?case
  proof
    assume "includes_str (x # xs) q"
    then consider "startsWith (x # xs) q" | "includes_str xs q" by auto
    then show "\<exists>ps ss. x # xs = ps @ q @ ss"
    proof cases
      case 1
      then obtain ss where "x # xs = q @ ss" by (auto simp: startsWith_iff)
      then have "x # xs = [] @ q @ ss" by simp
      then show ?thesis by blast
    next
      case 2
      with Cons obtain ps ss where "xs = ps @ q @ ss" by auto
      then have "x # xs = (x # ps) @ q @ ss" by simp
      then show ?thesis by blast
    qed
  next
    assume "\<exists>ps ss. x # xs = ps @ q @ ss"
    then obtain ps ss where e: "x # xs = ps @ q @ ss" by auto
    show "includes_str (x # xs) q"
    proof (cases ps)
      case Nil
      with e have "startsWith (x # xs) q" by (auto simp: startsWith_iff)
      then show ?thesis by simp
    next
      case (Cons p ps')
      with e have "xs = ps' @ q @ ss" by simp
      with Cons.IH have "includes_str xs q" by blast
      then show ?thesis by simp
    qed
  qed
qed

section \<open>First occurrences\<close>

lemma findIndex_from_range:
  "findIndex_from P xs k = - 1 \<or> int k \<le> findIndex_from P xs k"
proof (induction xs arbitrary: k)
  case Nil
  then show ?case by simp
next
  case (Cons x xs)
  from Cons[of "Suc k"] show ?case by auto
qed

lemma findIndex_from_first:
  "findIndex_from P xs k = int (k + n) \<longleftrightarrow>
     n < length xs \<and> P (xs ! n) \<and> (\<forall>j<n. \<not> P (xs ! j))"
proof (induction xs arbitrary: k n)
  case Nil
  then show ?case by simp
next
  case (Cons x xs)
  show ?case
  proof (cases n)
    case 0
    have "findIndex_from P xs (Suc k) \<noteq> int k"
      using findIndex_from_range[of P xs "Suc k"] by auto
    then show ?thesis using 0 by auto
  next
    case (Suc m)
    then show ?thesis using Cons.IH[of "Suc k" m] by (auto simp: less_Suc_eq_0_disj)
  qed
qed

lemma findIndex_first:
  "int n = findIndex P xs \<longleftrightarrow> n < length xs \<and> P (xs ! n) \<and> (\<forall>j<n. \<not> P (xs ! j))"
  using findIndex_from_first[of P xs 0 n] by (auto simp: findIndex_def)

lemma filter_from_first_occurrences:
  "filter_from (\<lambda>x index self. int index = findIndex (\<lambda>d. key d = key x) self)
      (pre @ rest) (length pre) rest
   = first_occurrences key (key ` set pre) rest"
proof (induction rest arbitrary: pre)
  case Nil
  then show ?case by simp
next
  case (Cons x xs)
  have keep: "int (length pre) = findIndex (\<lambda>d. key d = key x) (pre @ x # xs)
                \<longleftrightarrow> key x \<notin> key ` set pre"
  proof -
    have "(\<forall>j<length pre. key (pre ! j) \<noteq> key x) \<longleftrightarrow> key x \<notin> key ` set pre"
      by (metis (no_types, lifting) image_iff in_set_conv_nth)
    moreover have "(\<forall>j<length pre. key ((pre @ x # xs) ! j) \<noteq> key x)
                     \<longleftrightarrow> (\<forall>j<length pre. key (pre ! j) \<noteq> key x)"
      by (simp add: nth_append)
    ultimately show ?thesis by (simp add: findIndex_first)
  qed
  have step: "filter_from (\<lambda>x index self. int index = findIndex (\<lambda>d. key d = key x) self)
      (pre @ x # xs) (Suc (length pre)) xs = first_occurrences key (key ` set (pre @ [x])) xs"
    using Cons[of "pre @ [x]"] by simp
  show ?case using keep step by (auto simp: insert_absorb)
qed

lemma first_occurrences_keys:
  "key ` set (first_occurrences key seen xs) = key ` set xs - seen"
  by (induction xs arbitrary: seen) auto

lemma first_occurrences_distinct:
  "distinct (map key (first_occurrences key seen xs))"
  by (induction xs arbitrary: seen) (auto simp: first_occurrences_keys)

lemma first_occurrences_subseq: "subseq (first_occurrences key seen xs) xs"
  by (induction xs arbitrary: seen) auto

lemma first_occurrences_find:
  "i \<notin> seen \<Longrightarrow> find (\<lambda>d. key d = i) (first_occurrences key seen xs) = find (\<lambda>d. key d = i) xs"
  by (induction xs arbitrary: seen) auto

lemma uniqueDocs_first_occurrences:
  "uniqueDocs my sh = first_occurrences doc_id {} (my @ sh)"
  using filter_from_first_occurrences[of doc_id "[]" "my @ sh"]
  by (simp add: uniqueDocs_def filter_indexed_def)

section \<open>The permission map\<close>

lemma find_filter_conj: "find P (filter Q xs) = find (\<lambda>x. Q x \<and> P x) xs"
  by (induction xs) auto

lemma find_snoc:
  "find P (xs @ [x]) = (case find P xs of Some y \<Rightarrow> Some y | None \<Rightarrow> if P x then Some x else None)"
  by (induction xs) auto

lemma fold_update_find:
  "fold (\<lambda>p m. m(key p \<mapsto> p)) xs m k =
     (case find (\<lambda>p. key p = k) (rev xs) of Some p \<Rightarrow> Some p | None \<Rightarrow> m k)"
proof (induction xs arbitrary: m)
  case Nil
  then show ?case by simp
next
  case (Cons x xs)
  have "fold (\<lambda>p m. m(key p \<mapsto> p)) (x # xs) m k
          = fold (\<lambda>p m. m(key p \<mapsto> p)) xs (m(key x \<mapsto> x)) k"
    by simp
  also have "\<dots> = (case find (\<lambda>p. key p = k) (rev xs) of
                       Some p \<Rightarrow> Some p | None \<Rightarrow> (m(key x \<mapsto> x)) k)"
    by (rule Cons.IH)
  also have "\<dots> = (case find (\<lambda>p. key p = k) (rev (x # xs)) of
                       Some p \<Rightarrow> Some p | None \<Rightarrow> m k)"
    by (simp add: find_snoc split: option.splits)
  finally show ?case .
qed

lemma buildPermMap_find:
  "buildPermMap perms k = find (\<lambda>p. status p = ''approved'' \<and> document_id p = k) (rev perms)"
proof -
  have "buildPermMap perms k =
          find (\<lambda>p. document_id p = k) (rev (filter (\<lambda>p. status p = ''approved'') perms))"
    unfolding buildPermMap_def fold_update_find by (simp split: option.splits)
  also have "\<dots> = find (\<lambda>p. status p = ''approved'' \<and> document_id p = k) (rev perms)"
    using find_filter_conj[of "\<lambda>p. document_id p = k" "\<lambda>p. status p = ''approved''" "rev perms"]
    by (simp add: rev_filter)
  finally show ?thesis .
qed

section \<open>Duration formatting: properties\<close>

lemma formatDuration_body_positive:
  assumes "0 < s"
  shows "formatDuration_body (Num s) =
     (if 0 < s div 3600 then intToString (s div 3600) @ ''h '' @ intToString ((s mod 3600) div 60) @ ''m''
      else if 0 < (s mod 3600) div 60 then intToString ((s mod 3600) div 60) @ ''m''
      else intToString s @ ''s'')"
  using assms
  by (simp add: formatDuration_body_def floor_div_def js_rem_def gt_zero_def numToString_def Let_def)

lemma formatDuration_body_int:
  "formatDuration_body (Num s) =
     (if 0 < s div 3600
      then intToString (s div 3600) @ ''h '' @
           intToString ((if 0 \<le> s then s mod 3600 else - ((- s) mod 3600)) div 60) @ ''m''
      else if 0 < (if 0 \<le> s then s mod 3600 else - ((- s) mod 3600)) div 60
      then intToString ((if 0 \<le> s then s mod 3600 else - ((- s) mod 3600)) div 60) @ ''m''
      else intToString s @ ''s'')"
  by (simp add: formatDuration_body_def floor_div_def js_rem_def gt_zero_def numToString_def Let_def)

lemma fold_or_zero:
  "fold (\<lambda>log sum. sum + or_zero (duration_seconds log)) logs a
     = a + sum_list (map (\<lambda>log. or_zero (duration_seconds log)) logs)"
  by (induction logs arbitrary: a) auto

lemma falsy_or_zero: "\<not> truthy v \<Longrightarrow> or_zero v = 0"
  by (cases v) (auto simp: or_zero_def)

lemma sum_falsy_durations:
  "\<forall>log\<in>set logs. \<not> truthy (duration_seconds log) \<Longrightarrow>
     sum_list (map (\<lambda>log. or_zero (duration_seconds log)) logs) = 0"
  by (induction logs) (auto simp: falsy_or_zero)

text \<open>
  Claim C6, as the code has it. For every positive number of seconds \<open>s\<close> (a safe integer),
  with \<open>h = floor(s / 3600)\<close> and \<open>m = floor((s mod 3600) / 60)\<close>, both versions of
  \<open>formatDuration\<close> return \<open><h>h <m>m\<close> when \<open>h > 0\<close>, otherwise \<open><m>m\<close> when \<open>m > 0\<close>,
  otherwise \<open><s>s\<close>. The ActivityLogs version returns \<open>null\<close> when its argument is zero or
  absent; the Duration cell of the table renders that \<open>null\<close> as \<open>-\<close>, the Total Duration card
  (whose argument is zero when every duration is zero or absent) renders it as \<open>0m\<close>.
\<close>

theorem formatDuration_spec:
  "(0 < s \<and> safe_integer s \<longrightarrow>
      (let h = s div 3600; m = (s mod 3600) div 60;
           out = (if 0 < h then intToString h @ ''h '' @ intToString m @ ''m''
                  else if 0 < m then intToString m @ ''m''
                  else intToString s @ ''s'')
       in formatDuration_Dashboard (Num s) = out \<and>
          formatDuration_ActivityLogs (Num s) = Some out)) \<and>
   (v = Num 0 \<or> v = Null \<or> v = Undefined \<longrightarrow> formatDuration_ActivityLogs v = None) \<and>
   (duration_seconds log = Num 0 \<or> duration_seconds log = Null \<or> duration_seconds log = Undefined
      \<longrightarrow> durationCell log = ''-'') \<and>
   ((\<forall>l\<in>set logs. duration_seconds l = Num 0 \<or> duration_seconds l = Null \<or>
                    duration_seconds l = Undefined)
      \<longrightarrow> totalDurationCard logs = ''0m'')"
proof (intro conjI impI)
  assume "0 < s \<and> safe_integer s"
  then show "let h = s div 3600; m = (s mod 3600) div 60;
           out = (if 0 < h then intToString h @ ''h '' @ intToString m @ ''m''
                  else if 0 < m then intToString m @ ''m''
                  else intToString s @ ''s'')
       in formatDuration_Dashboard (Num s) = out \<and>
          formatDuration_ActivityLogs (Num s) = Some out"
    by (simp add: formatDuration_Dashboard_def formatDuration_ActivityLogs_def
        formatDuration_body_positive Let_def)
next
  assume "v = Num 0 \<or> v = Null \<or> v = Undefined"
  then show "formatDuration_ActivityLogs v = None"
    by (auto simp: formatDuration_ActivityLogs_def)
next
  assume "duration_seconds log = Num 0 \<or> duration_seconds log = Null \<or> duration_seconds log = Undefined"
  then show "durationCell log = ''-''"
    by (auto simp: durationCell_def formatDuration_ActivityLogs_def or_default_def)
next
  assume "\<forall>l\<in>set logs. duration_seconds l = Num 0 \<or> duration_seconds l = Null \<or>
                    duration_seconds l = Undefined"
  then have "\<forall>l\<in>set logs. \<not> truthy (duration_seconds l)" by auto
  then have "sum_list (map (\<lambda>log. or_zero (duration_seconds log)) logs) = 0"
    by (rule sum_falsy_durations)
  then show "totalDurationCard logs = ''0m''"
    by (simp add: totalDurationCard_def fold_or_zero formatDuration_ActivityLogs_def or_default_def)
qed

lemma natToString_samples:
  "natToString 0 = ''0'' \<and> natToString 1 = ''1'' \<and> natToString 2 = ''2'' \<and>
   natToString 3725 = ''3725''"
  by code_simp

theorem formatDuration_spec_witness:
  "0 < (3725 :: int) \<and> safe_integer 3725 \<and>
   formatDuration_Dashboard (Num 3725) = ''1h 2m'' \<and>
   formatDuration_ActivityLogs (Num 3725) = Some ''1h 2m'' \<and>
   formatDuration_ActivityLogs Null = None \<and>
   durationCell (sample_log ''upload'' ''Ada'' ''notes.pdf'' Null) = ''-'' \<and>
   totalDurationCard [sample_log ''upload'' ''Ada'' ''notes.pdf'' Null] = ''0m''"
  using formatDuration_spec [of 3725 Null "sample_log ''upload'' ''Ada'' ''notes.pdf'' Null"
      "[sample_log ''upload'' ''Ada'' ''notes.pdf'' Null]"] natToString_samples
  by (simp add: Let_def intToString_def sample_log_def safe_integer_def)

text \<open>
  The Total Duration card calls the ActivityLogs version with a zero sum and shows \<open>0m\<close>,
  not \<open>-\<close>.
\<close>

theorem total_duration_not_dash:
  "formatDuration_ActivityLogs (Num 0) = None \<and>
   totalDurationCard [sample_log ''upload'' ''Ada'' ''notes.pdf'' (Num 0)] = ''0m'' \<and>
   totalDurationCard [sample_log ''upload'' ''Ada'' ''notes.pdf'' (Num 0)] \<noteq> ''-''"
  by (simp add: totalDurationCard_def formatDuration_ActivityLogs_def or_default_def
      sample_log_def or_zero_def)

text \<open>
  The two versions run the same body on every non-zero number, so they return the same
  string there; on zero the Dashboard version returns \<open>0s\<close> and the ActivityLogs version
  \<open>null\<close>.
\<close>

lemma formatDuration_versions_agree:
  "(s \<noteq> 0 \<longrightarrow> formatDuration_ActivityLogs (Num s) = Some (formatDuration_Dashboard (Num s))) \<and>
   formatDuration_ActivityLogs (Num 0) = None \<and> formatDuration_Dashboard (Num 0) = ''0s''"
proof -
  have z: "natToString 0 = ''0''" by code_simp
  have "formatDuration_Dashboard (Num 0) = ''0s''"
    by (simp add: formatDuration_Dashboard_def formatDuration_body_int intToString_def z)
  then show ?thesis
    by (simp add: formatDuration_ActivityLogs_def formatDuration_Dashboard_def)
qed

text \<open>
  Claim C10 at an absent duration. The ActivityLogs version returns \<open>null\<close>; the Dashboard
  version, which the claim has return \<open>0s\<close>, computes zero hours and zero minutes from
  \<open>null\<close> and then prints the argument itself in \<open>`${seconds}s`\<close>: it returns \<open>nulls\<close>, and
  \<open>undefineds\<close> for a missing field.
\<close>

theorem dashboard_absent_not_0s:
  "formatDuration_ActivityLogs Null = None \<and>
   formatDuration_Dashboard Null = ''nulls'' \<and> formatDuration_Dashboard Null \<noteq> ''0s'' \<and>
   formatDuration_Dashboard Undefined = ''undefineds''"
  by (simp add: formatDuration_ActivityLogs_def formatDuration_Dashboard_def
      formatDuration_body_def floor_div_def js_rem_def gt_zero_def)

section \<open>Page logic: properties\<close>


text \<open>
  Claim C8. For every list of incoming permission records, the Pending Requests statistic of
  the Dashboard and the count on the Incoming tab of Access Requests both equal the number
  of records of the list whose status is \<open>pending\<close>.
\<close>

theorem pending_count:
  "pendingRequests (stats (fst (loadDashboardData (Some r) st)))
     = card {i. i < length (incomingReqRes r) \<and> status (incomingReqRes r ! i) = ''pending''} \<and>
   incomingTabCount (incomingReqRes r)
     = card {i. i < length (incomingReqRes r) \<and> status (incomingReqRes r ! i) = ''pending''}"
  by (simp add: loadDashboardData_def incomingTabCount_def length_filter_conv_card)

text \<open>
  Claim C9. After \<open>loadAllDocuments\<close> has merged the owned with the shared documents, every
  document id occurs at most once in \<open>allDocuments\<close>: the result keeps, in order, the first
  occurrence of each id in the concatenation, so the first document with a given id is the
  same in the result and in the concatenation.
\<close>

theorem loadAllDocuments_unique:
  "distinct (map doc_id (loadAllDocuments (Some (myDocs, sharedDocs)) old)) \<and>
   loadAllDocuments (Some (myDocs, sharedDocs)) old
     = first_occurrences doc_id {} (myDocs @ sharedDocs) \<and>
   subseq (loadAllDocuments (Some (myDocs, sharedDocs)) old) (myDocs @ sharedDocs) \<and>
   find (\<lambda>d. doc_id d = i) (loadAllDocuments (Some (myDocs, sharedDocs)) old)
     = find (\<lambda>d. doc_id d = i) (myDocs @ sharedDocs)"
  by (simp add: loadAllDocuments_def uniqueDocs_first_occurrences first_occurrences_distinct
      first_occurrences_subseq first_occurrences_find del: distinct_map)

theorem loadAllDocuments_unique_witness:
  "loadAllDocuments
     (Some ([sample_doc ''d1'' ''a.pdf'' None None, sample_doc ''d2'' ''b.pdf'' None None],
            [sample_doc ''d2'' ''b-shared.pdf'' None None, sample_doc ''d3'' ''c.pdf'' None None,
             sample_doc ''d1'' ''a-shared.pdf'' None None])) []
     = [sample_doc ''d1'' ''a.pdf'' None None, sample_doc ''d2'' ''b.pdf'' None None,
        sample_doc ''d3'' ''c.pdf'' None None]"
  using loadAllDocuments_unique [of
      "[sample_doc ''d1'' ''a.pdf'' None None, sample_doc ''d2'' ''b.pdf'' None None]"
      "[sample_doc ''d2'' ''b-shared.pdf'' None None, sample_doc ''d3'' ''c.pdf'' None None,
        sample_doc ''d1'' ''a-shared.pdf'' None None]" "[]"]
  by (simp add: sample_doc_def)














section \<open>Shared with Me: properties\<close>

lemma isExpired_expired_at:
  assumes "parseDate [] = None"
  shows "isExpired parseDate now (Some p) \<longleftrightarrow> expired_at parseDate now p"
proof (cases "expires_at p")
  case None
  then show ?thesis by (simp add: isExpired_def expired_at_def)
next
  case (Some e)
  show ?thesis
  proof (cases "e = []")
    case True
    with Some assms show ?thesis by (simp add: isExpired_def expired_at_def)
  next
    case False
    with Some show ?thesis by (simp add: isExpired_def expired_at_def date_before_def)
  qed
qed

lemma buildPermMap_member: "buildPermMap perms k = Some p \<Longrightarrow> p \<in> set perms"
proof -
  assume "buildPermMap perms k = Some p"
  then have "find (\<lambda>p. status p = ''approved'' \<and> document_id p = k) (rev perms) = Some p"
    by (simp add: buildPermMap_find)
  then have "p \<in> set (rev perms)"
    unfolding find_Some_iff by (metis nth_mem)
  then show ?thesis by simp
qed

lemma permissionDetails_ok:
  assumes "\<And>p e. perm = Some p \<Longrightarrow> expires_at p = Some e \<Longrightarrow> e \<noteq> [] \<Longrightarrow> parseDate e \<noteq> None"
  shows "\<exists>details. permissionDetails parseDate perm expired = Inr details"
proof (cases perm)
  case None
  then show ?thesis by (simp add: permissionDetails_def)
next
  case (Some p)
  show ?thesis
  proof (cases "expires_at p")
    case None
    with Some show ?thesis by (simp add: permissionDetails_def)
  next
    case e: (Some e)
    show ?thesis
    proof (cases "e = []")
      case True
      with Some e show ?thesis by (simp add: permissionDetails_def)
    next
      case False
      with assms [OF Some e] obtain t where "parseDate e = Some t" by auto
      with Some e False show ?thesis by (simp add: permissionDetails_def format_date_def)
    qed
  qed
qed

lemma renderCard_ok:
  assumes "parseDate (uploaded_at doc) \<noteq> None"
    and "\<And>p e. perms (doc_id doc) = Some p \<Longrightarrow> expires_at p = Some e \<Longrightarrow> e \<noteq> [] \<Longrightarrow>
           parseDate e \<noteq> None"
  shows "\<exists>c. renderCard parseDate now perms doc = Inr c \<and> card_key c = doc_id doc \<and>
           download_button c
             = downloadCondition (perms (doc_id doc)) (isExpired parseDate now (perms (doc_id doc)))"
proof -
  from permissionDetails_ok [of "perms (doc_id doc)" parseDate
      "isExpired parseDate now (perms (doc_id doc))"] assms(2)
  obtain details where d: "permissionDetails parseDate (perms (doc_id doc))
      (isExpired parseDate now (perms (doc_id doc))) = Inr details"
    by blast
  from assms(1) obtain up where "parseDate (uploaded_at doc) = Some up" by auto
  with d show ?thesis by (simp add: renderCard_def Let_def format_date_def)
qed

lemma renderCards_ok:
  assumes "\<forall>d\<in>set docs. parseDate (uploaded_at d) \<noteq> None"
    and "\<And>k p e. perms k = Some p \<Longrightarrow> expires_at p = Some e \<Longrightarrow> e \<noteq> [] \<Longrightarrow> parseDate e \<noteq> None"
  shows "\<exists>cards. renderCards parseDate now perms docs = Inr cards \<and>
           list_all2 (\<lambda>d c. card_key c = doc_id d \<and>
              download_button c
                = downloadCondition (perms (doc_id d)) (isExpired parseDate now (perms (doc_id d))))
             docs cards"
  using assms(1)
proof (induction docs)
  case Nil
  then show ?case by simp
next
  case (Cons d ds)
  from Cons.prems have "parseDate (uploaded_at d) \<noteq> None" by simp
  from renderCard_ok [of parseDate d perms now, OF this] assms(2)
  obtain c where c: "renderCard parseDate now perms d = Inr c" "card_key c = doc_id d"
    "download_button c
       = downloadCondition (perms (doc_id d)) (isExpired parseDate now (perms (doc_id d)))"
    by blast
  from Cons obtain cs where cs: "renderCards parseDate now perms ds = Inr cs"
    "list_all2 (\<lambda>d c. card_key c = doc_id d \<and>
              download_button c
                = downloadCondition (perms (doc_id d)) (isExpired parseDate now (perms (doc_id d))))
       ds cs"
    by auto
  from c cs show ?case by simp
qed

lemma downloadCondition_spec:
  assumes "parseDate [] = None"
  shows "downloadCondition perm (isExpired parseDate now perm) \<longleftrightarrow>
           (\<exists>p. perm = Some p \<and>
                (permission_type p = ''download'' \<or> permission_type p = ''edit'') \<and>
                \<not> expired_at parseDate now p)"
  using isExpired_expired_at [of parseDate, OF assms]
  by (cases perm) (auto simp: downloadCondition_def)

text \<open>
  Claim C1. On the Shared with Me page the Download button is rendered for a document if
  and only if the permission map holds a record for it whose \<open>permission_type\<close> is \<open>download\<close>
  or \<open>edit\<close> and which is not expired, a permission being expired exactly when it has an
  \<open>expires_at\<close> and that instant is earlier than the current time. The map is built from the
  outgoing permissions keeping the records with status \<open>approved\<close>, keyed by \<open>document_id\<close>,
  the last approved record of a document winning. The timestamps of the records are dates:
  every \<open>uploaded_at\<close> and every non-empty \<open>expires_at\<close> parses (the page formats them, and
  formatting an invalid date throws), and the empty string is not a date.
\<close>

theorem download_button_spec:
  assumes "parseDate [] = None"
    and "\<forall>d\<in>set docs. parseDate (uploaded_at d) \<noteq> None"
    and "\<forall>p\<in>set perms. \<forall>e. expires_at p = Some e \<and> e \<noteq> [] \<longrightarrow> parseDate e \<noteq> None"
  shows "(\<exists>cards.
            renderSharedDocuments parseDate now (fst (loadSharedDocuments (Some (docs, perms)) st))
              = Inr cards \<and>
            map card_key cards = map doc_id docs \<and>
            (\<forall>i<length docs.
               download_button (cards ! i) \<longleftrightarrow>
                 (\<exists>p. permissions (fst (loadSharedDocuments (Some (docs, perms)) st))
                        (doc_id (docs ! i)) = Some p \<and>
                      (permission_type p = ''download'' \<or> permission_type p = ''edit'') \<and>
                      \<not> expired_at parseDate now p))) \<and>
         permissions (fst (loadSharedDocuments (Some (docs, perms)) st)) k
            = find (\<lambda>p. status p = ''approved'' \<and> document_id p = k) (rev perms)"
proof
  let ?pm = "buildPermMap perms"
  have valid: "\<And>k p e. ?pm k = Some p \<Longrightarrow> expires_at p = Some e \<Longrightarrow> e \<noteq> [] \<Longrightarrow>
                 parseDate e \<noteq> None"
    using assms(3) buildPermMap_member by blast
  from renderCards_ok [of docs parseDate ?pm now, OF assms(2)] valid
  obtain cards where r: "renderCards parseDate now ?pm docs = Inr cards"
    and a: "list_all2 (\<lambda>d c. card_key c = doc_id d \<and>
              download_button c
                = downloadCondition (?pm (doc_id d)) (isExpired parseDate now (?pm (doc_id d))))
             docs cards"
    by blast
  have 1: "renderSharedDocuments parseDate now (fst (loadSharedDocuments (Some (docs, perms)) st))
             = Inr cards"
    using r by (simp add: renderSharedDocuments_def loadSharedDocuments_def)
  from a have len: "length docs = length cards" by (rule list_all2_lengthD)
  from a have nth: "\<And>i. i < length docs \<Longrightarrow> card_key (cards ! i) = doc_id (docs ! i) \<and>
      download_button (cards ! i)
        = downloadCondition (?pm (doc_id (docs ! i)))
            (isExpired parseDate now (?pm (doc_id (docs ! i))))"
    by (simp add: list_all2_conv_all_nth)
  have 2: "map card_key cards = map doc_id docs"
    using len nth by (auto intro: nth_equalityI)
  have 3: "\<forall>i<length docs.
               download_button (cards ! i) \<longleftrightarrow>
                 (\<exists>p. permissions (fst (loadSharedDocuments (Some (docs, perms)) st))
                        (doc_id (docs ! i)) = Some p \<and>
                      (permission_type p = ''download'' \<or> permission_type p = ''edit'') \<and>
                      \<not> expired_at parseDate now p)"
    using nth downloadCondition_spec [of parseDate _ now, OF assms(1)]
    by (simp add: loadSharedDocuments_def)
  from 1 2 3 show "\<exists>cards.
            renderSharedDocuments parseDate now (fst (loadSharedDocuments (Some (docs, perms)) st))
              = Inr cards \<and>
            map card_key cards = map doc_id docs \<and>
            (\<forall>i<length docs.
               download_button (cards ! i) \<longleftrightarrow>
                 (\<exists>p. permissions (fst (loadSharedDocuments (Some (docs, perms)) st))
                        (doc_id (docs ! i)) = Some p \<and>
                      (permission_type p = ''download'' \<or> permission_type p = ''edit'') \<and>
                      \<not> expired_at parseDate now p))"
    by blast
  show "permissions (fst (loadSharedDocuments (Some (docs, perms)) st)) k
            = find (\<lambda>p. status p = ''approved'' \<and> document_id p = k) (rev perms)"
    by (simp add: loadSharedDocuments_def buildPermMap_find)
qed

theorem download_button_spec_witness:
  "sample_parseDate [] = None \<and>
   renderSharedDocuments sample_parseDate 1710000000000
     (fst (loadSharedDocuments
        (Some ([sample_doc ''d1'' ''Exam.pdf'' None None, sample_doc ''d2'' ''Old.pdf'' None None],
               [sample_perm ''d1'' ''view'' ''approved'' None,
                sample_perm ''d1'' ''download'' ''approved'' (Some ''2030-01-01T00:00:00.000Z''),
                sample_perm ''d1'' ''edit'' ''pending'' None,
                sample_perm ''d2'' ''download'' ''approved'' (Some ''1970-01-01T00:00:05.000Z'')]))
        shared_init))
     = Inr [\<lparr>card_key = ''d1'',
             permission_details = Some (''download'', Some (Until 1893456000000)),
             uploaded = 1709283600000, download_button = True\<rparr>,
            \<lparr>card_key = ''d2'', permission_details = Some (''download'', Some Expired),
             uploaded = 1709283600000, download_button = False\<rparr>] \<and>
   permissions
     (fst (loadSharedDocuments
        (Some ([sample_doc ''d1'' ''Exam.pdf'' None None, sample_doc ''d2'' ''Old.pdf'' None None],
               [sample_perm ''d1'' ''view'' ''approved'' None,
                sample_perm ''d1'' ''download'' ''approved'' (Some ''2030-01-01T00:00:00.000Z''),
                sample_perm ''d1'' ''edit'' ''pending'' None,
                sample_perm ''d2'' ''download'' ''approved'' (Some ''1970-01-01T00:00:05.000Z'')]))
        shared_init)) ''d1''
     = Some (sample_perm ''d1'' ''download'' ''approved'' (Some ''2030-01-01T00:00:00.000Z''))"
proof -
  let ?docs = "[sample_doc ''d1'' ''Exam.pdf'' None None, sample_doc ''d2'' ''Old.pdf'' None None]"
  let ?perms = "[sample_perm ''d1'' ''view'' ''approved'' None,
                sample_perm ''d1'' ''download'' ''approved'' (Some ''2030-01-01T00:00:00.000Z''),
                sample_perm ''d1'' ''edit'' ''pending'' None,
                sample_perm ''d2'' ''download'' ''approved'' (Some ''1970-01-01T00:00:05.000Z'')]"
  have h1: "sample_parseDate [] = None" by (simp add: sample_parseDate_def)
  have h2: "\<forall>d\<in>set ?docs. sample_parseDate (uploaded_at d) \<noteq> None"
    by (simp add: sample_doc_def sample_parseDate_def)
  have h3: "\<forall>p\<in>set ?perms. \<forall>e. expires_at p = Some e \<and> e \<noteq> [] \<longrightarrow> sample_parseDate e \<noteq> None"
    by (simp add: sample_perm_def sample_parseDate_def)
  have r: "renderSharedDocuments sample_parseDate 1710000000000
     (fst (loadSharedDocuments (Some (?docs, ?perms)) shared_init))
     = Inr [\<lparr>card_key = ''d1'',
             permission_details = Some (''download'', Some (Until 1893456000000)),
             uploaded = 1709283600000, download_button = True\<rparr>,
            \<lparr>card_key = ''d2'', permission_details = Some (''download'', Some Expired),
             uploaded = 1709283600000, download_button = False\<rparr>]"
    by (simp add: renderSharedDocuments_def loadSharedDocuments_def renderCard_def Let_def
        buildPermMap_find permissionDetails_def downloadCondition_def isExpired_def
        date_before_def format_date_def sample_doc_def sample_perm_def sample_parseDate_def)
  from download_button_spec [of sample_parseDate ?docs ?perms 1710000000000 shared_init "''d1''",
      OF h1 h2 h3]
  have "permissions (fst (loadSharedDocuments (Some (?docs, ?perms)) shared_init)) ''d1''
     = Some (sample_perm ''d1'' ''download'' ''approved'' (Some ''2030-01-01T00:00:00.000Z''))"
    by (simp add: sample_perm_def)
  with h1 r show ?thesis by simp
qed

text \<open>
  A non-empty \<open>expires_at\<close> that is not a date: the flag is false, the label \<open>Until\<close> is
  formatted, and the page throws.
\<close>

lemma invalid_expiry_throws:
  "renderSharedDocuments sample_parseDate 1710000000000
     (fst (loadSharedDocuments
        (Some ([sample_doc ''d1'' ''Exam.pdf'' None None],
               [sample_perm ''d1'' ''download'' ''approved'' (Some ''next week'')]))
        shared_init))
     = Inl RangeError"
  by (simp add: renderSharedDocuments_def loadSharedDocuments_def renderCard_def Let_def
      buildPermMap_find permissionDetails_def isExpired_def date_before_def format_date_def
      sample_doc_def sample_perm_def sample_parseDate_def)

section \<open>The API client: properties\<close>

text \<open>
  Claim C2. For every failed response: when the status is 401 the response interceptor removes
  the stored token and sets the location to \<open>/\<close>; for every other failure (another status, or no
  response at all) the browser state is unchanged. In both cases the handler hands on the
  rejection of the same error, and never a request sent again.
\<close>

theorem responseRejected_spec:
  "(map_option resp_status (err_response e) = Some 401 \<longrightarrow>
      localStorage (fst (responseRejected e b)) = (localStorage b)(''token'' := None) \<and>
      href (fst (responseRejected e b)) = ''/'') \<and>
   (map_option resp_status (err_response e) \<noteq> Some 401 \<longrightarrow> fst (responseRejected e b) = b) \<and>
   snd (responseRejected e b) = Reject e \<and>
   (\<forall>cfg. snd (responseRejected e b) \<noteq> Reissue cfg)"
  by (auto simp: responseRejected_def Let_def)

theorem responseRejected_spec_witness:
  "localStorage (fst (responseRejected
       \<lparr>err_response = Some \<lparr>resp_status = 401, resp_data = ''unauthorized''\<rparr>, message = ''401''\<rparr>
       sample_browser)) ''token'' = None \<and>
   href (fst (responseRejected
       \<lparr>err_response = Some \<lparr>resp_status = 401, resp_data = ''unauthorized''\<rparr>, message = ''401''\<rparr>
       sample_browser)) = ''/'' \<and>
   fst (responseRejected
       \<lparr>err_response = Some \<lparr>resp_status = 500, resp_data = ''server error''\<rparr>, message = ''500''\<rparr>
       sample_browser) = sample_browser \<and>
   fst (responseRejected \<lparr>err_response = None, message = ''Network Error''\<rparr> sample_browser)
     = sample_browser"
  using
    responseRejected_spec [of
      "\<lparr>err_response = Some \<lparr>resp_status = 401, resp_data = ''unauthorized''\<rparr>, message = ''401''\<rparr>"
      sample_browser]
    responseRejected_spec [of
      "\<lparr>err_response = Some \<lparr>resp_status = 500, resp_data = ''server error''\<rparr>, message = ''500''\<rparr>"
      sample_browser]
    responseRejected_spec [of "\<lparr>err_response = None, message = ''Network Error''\<rparr>" sample_browser]
  by simp

lemma request_config_no_Authorization: "headers (request_config call) ''Authorization'' = None"
  by (cases call) (simp_all add: plain_request_def)

text \<open>
  Claim C4. The request interceptor sets the \<open>Authorization\<close> header to \<open>Bearer\<close> followed by
  the stored token exactly when a token is stored (a non-empty entry \<open>token\<close>, the test
  \<open>if (token)\<close>), and changes nothing else; without a token the request is unmodified, and
  every request built by the API wrappers is then sent without an \<open>Authorization\<close> header.
\<close>

theorem requestInterceptor_spec:
  "(\<forall>t. localStorage b ''token'' = Some t \<and> t \<noteq> [] \<longrightarrow>
      requestInterceptor b cfg = cfg\<lparr>headers := (headers cfg)(''Authorization'' \<mapsto> ''Bearer '' @ t)\<rparr> \<and>
      headers (requestInterceptor b (request_config call)) ''Authorization'' = Some (''Bearer '' @ t)) \<and>
   (localStorage b ''token'' = None \<or> localStorage b ''token'' = Some [] \<longrightarrow>
      requestInterceptor b cfg = cfg \<and>
      headers (requestInterceptor b (request_config call)) ''Authorization'' = None)"
  by (auto simp: requestInterceptor_def request_config_no_Authorization)

theorem requestInterceptor_spec_witness:
  "localStorage sample_browser ''token'' = Some ''abc'' \<and>
   headers (requestInterceptor sample_browser (request_config GetMy)) ''Authorization''
     = Some ''Bearer abc'' \<and>
   localStorage (sample_browser\<lparr>localStorage := Map.empty\<rparr>) ''token'' = None \<and>
   requestInterceptor (sample_browser\<lparr>localStorage := Map.empty\<rparr>) (request_config (Login ''a@b.c'' ''pw''))
     = request_config (Login ''a@b.c'' ''pw'')"
proof -
  have t: "localStorage sample_browser ''token'' = Some ''abc''"
    by (simp add: sample_browser_def)
  have n: "localStorage (sample_browser\<lparr>localStorage := Map.empty\<rparr>) ''token'' = None"
    by simp
  show ?thesis
    using t n requestInterceptor_spec [of sample_browser "request_config GetMy" GetMy]
      requestInterceptor_spec [of "sample_browser\<lparr>localStorage := Map.empty\<rparr>"
        "request_config (Login ''a@b.c'' ''pw'')" GetMy]
    by simp
qed

end
